theory Spec2Isabelle
  imports Main "HOL-Library.Sublist"
begin

section \<open>Python text primitives\<close>

text \<open>
  Text is a \<^typ>\<open>string\<close>: a list of characters, each one code point below 256.
  On that range the character classes below are the ones of Python 3's \<^verbatim>\<open>str\<close>
  methods and of \<^verbatim>\<open>re\<close> on \<^verbatim>\<open>str\<close> patterns.
\<close>

datatype py_error = KeyError | IndexError | ValueError | AttributeError | OtherError string

text \<open>\<^verbatim>\<open>str.isspace\<close> on one character; also \<^verbatim>\<open>\s\<close> of \<^verbatim>\<open>re\<close>.\<close>

definition is_space :: "char \<Rightarrow> bool" where
  "is_space c = (c \<in> set [CHR 0x09, CHR 0x0A, CHR 0x0B, CHR 0x0C, CHR 0x0D, CHR 0x1C,
     CHR 0x1D, CHR 0x1E, CHR 0x1F, CHR 0x20, CHR 0x85, CHR 0xA0])"

definition non_space :: "char \<Rightarrow> bool" where
  "non_space c = (if is_space c then False else True)"

text \<open>\<^verbatim>\<open>\d\<close> of \<^verbatim>\<open>re\<close>.\<close>

definition is_digit :: "char \<Rightarrow> bool" where
  "is_digit c = (c \<in> set ''0123456789'')"

text \<open>\<^verbatim>\<open>.\<close> of \<^verbatim>\<open>re\<close> without DOTALL: anything but a newline.\<close>

definition dot :: "char \<Rightarrow> bool" where
  "dot c = (if c = CHR 0x0A then False else True)"

text \<open>A negated character set \<^verbatim>\<open>[^...]\<close>.\<close>

definition none_of :: "string \<Rightarrow> char \<Rightarrow> bool" where
  "none_of cs c = (if c \<in> set cs then False else True)"

definition one_of :: "string \<Rightarrow> char \<Rightarrow> bool" where
  "one_of cs c = (c \<in> set cs)"

text \<open>\<^verbatim>\<open>str.strip()\<close> with no argument.\<close>

definition strip :: "string \<Rightarrow> string" where
  "strip s = rev (dropWhile is_space (rev (dropWhile is_space s)))"

text \<open>\<^verbatim>\<open>str.lower()\<close>: A to Z, and the upper-case letters of Latin-1.\<close>

definition lower_char :: "char \<Rightarrow> char" where
  "lower_char c =
     (let n = (of_char c :: nat) in
      if 65 \<le> n \<and> n \<le> 90 then char_of (n + 32)
      else if 192 \<le> n \<and> n \<le> 222 \<and> n \<noteq> 215 then char_of (n + 32)
      else c)"

definition lower :: "string \<Rightarrow> string" where
  "lower s = map lower_char s"

text \<open>
  The first index at which \<open>sub\<close> occurs in \<open>s\<close>. \<^verbatim>\<open>sub in s\<close> is
  \<open>contains sub s\<close>; \<^verbatim>\<open>s.startswith(sub)\<close> is \<^term>\<open>prefix sub s\<close>.
\<close>

fun index_of :: "string \<Rightarrow> string \<Rightarrow> nat option" where
  "index_of sub [] = (if sub = [] then Some 0 else None)"
| "index_of sub (c # s) =
     (if prefix sub (c # s) then Some 0 else map_option Suc (index_of sub s))"

definition contains :: "string \<Rightarrow> string \<Rightarrow> bool" where
  "contains sub s = (case index_of sub s of None \<Rightarrow> False | Some i \<Rightarrow> True)"

text \<open>
  \<^verbatim>\<open>s.find(sub, start)\<close>: a negative \<open>start\<close> counts from the end and is
  clipped at 0; a \<open>start\<close> past the end finds nothing; the result is -1 when
  \<open>sub\<close> does not occur from \<open>start\<close> on.
\<close>

definition py_find :: "string \<Rightarrow> string \<Rightarrow> int \<Rightarrow> int" where
  "py_find s sub start =
     (let n = int (length s);
          st = (if start < 0 then max 0 (start + n) else start)
      in if n < st then - 1
         else (case index_of sub (drop (nat st) s) of
                 None \<Rightarrow> - 1
               | Some i \<Rightarrow> st + int i))"

text \<open>\<^verbatim>\<open>s[a:b]\<close>: negative bounds count from the end, both are clipped.\<close>

definition py_slice :: "string \<Rightarrow> int \<Rightarrow> int \<Rightarrow> string" where
  "py_slice s a b =
     (let n = int (length s);
          a' = (if a < 0 then max 0 (a + n) else min a n);
          b' = (if b < 0 then max 0 (b + n) else min b n)
      in take (nat (b' - a')) (drop (nat a') s))"

text \<open>
  \<^verbatim>\<open>str.splitlines()\<close>: a line ends at \<^verbatim>\<open>\n \r \v \f \x1c \x1d \x1e \x85\<close>, a
  \<^verbatim>\<open>\r\n\<close> pair ends one line, and no empty line follows a final line break.
\<close>

definition is_linebreak :: "char \<Rightarrow> bool" where
  "is_linebreak c = (c \<in> set [CHR 0x0A, CHR 0x0D, CHR 0x0B, CHR 0x0C, CHR 0x1C, CHR 0x1D,
     CHR 0x1E, CHR 0x85])"

fun splitlines_acc :: "string \<Rightarrow> string \<Rightarrow> string list" where
  "splitlines_acc cur [] = (if cur = [] then [] else [cur])"
| "splitlines_acc cur (c # s) =
     (if c = CHR 0x0D then
        (case s of
           d # s' \<Rightarrow> if d = CHR 0x0A then cur # splitlines_acc [] s'
                     else cur # splitlines_acc [] s
         | [] \<Rightarrow> cur # splitlines_acc [] s)
      else if is_linebreak c then cur # splitlines_acc [] s
      else splitlines_acc (cur @ [c]) s)"

definition splitlines :: "string \<Rightarrow> string list" where
  "splitlines s = splitlines_acc [] s"

text \<open>\<^verbatim>\<open>str.split()\<close> with no argument: the maximal runs of non-space characters.\<close>

fun split_acc :: "string \<Rightarrow> string \<Rightarrow> string list" where
  "split_acc cur [] = (if cur = [] then [] else [cur])"
| "split_acc cur (c # s) =
     (if is_space c then (if cur = [] then split_acc [] s else cur # split_acc [] s)
      else split_acc (cur @ [c]) s)"

definition split_ws :: "string \<Rightarrow> string list" where
  "split_ws s = split_acc [] s"

text \<open>\<^verbatim>\<open>str(n)\<close> for a natural number.\<close>

definition digit_char :: "nat \<Rightarrow> char" where
  "digit_char d = char_of (48 + d)"

fun str_nat :: "nat \<Rightarrow> string" where
  "str_nat n = (if n < 10 then [digit_char n] else str_nat (n div 10) @ [digit_char (n mod 10)])"

text \<open>\<^verbatim>\<open>sep.join(xs)\<close>.\<close>

fun join :: "string \<Rightarrow> string list \<Rightarrow> string" where
  "join sep [] = []"
| "join sep [x] = x"
| "join sep (x # y # xs) = x @ sep @ join sep (y # xs)"

section \<open>Regular expressions\<close>

text \<open>
  The patterns of the program use literals, single character classes, \<^verbatim>\<open>*\<close> and
  \<^verbatim>\<open>+\<close> on a character class, groups and alternation. A pattern is a list of
  items matched in sequence. Matching is Python's: backtracking, a repetition takes
  as many characters as it can and gives them back one at a time, the alternatives of
  an alternation are tried in order, the first way that reaches the end wins. The
  continuation \<open>k\<close> is the rest of the match; it gets the remaining text and the
  groups captured so far.
\<close>

datatype rx =
    Lit string
  | Cls "char \<Rightarrow> bool"
  | Star "char \<Rightarrow> bool"
  | Plus "char \<Rightarrow> bool"
  | Grp string "rx list"
  | Alts "rx list list"

type_synonym groups = "(string \<times> string) list"

fun star :: "(char \<Rightarrow> bool) \<Rightarrow> (string \<Rightarrow> 'a option) \<Rightarrow> string \<Rightarrow> 'a option" where
  "star p k [] = k []"
| "star p k (c # s) =
     (if p c then (case star p k s of Some r \<Rightarrow> Some r | None \<Rightarrow> k (c # s))
      else k (c # s))"

fun run :: "rx list \<Rightarrow> (string \<times> groups \<Rightarrow> 'a option) \<Rightarrow> string \<times> groups \<Rightarrow> 'a option"
  and alts :: "rx list list \<Rightarrow> (string \<times> groups \<Rightarrow> 'a option) \<Rightarrow> string \<times> groups \<Rightarrow> 'a option"
  where
  "run [] k st = k st"
| "run (Lit l # ts) k (s, g) =
     (if prefix l s then run ts k (drop (length l) s, g) else None)"
| "run (Cls p # ts) k (s, g) =
     (case s of [] \<Rightarrow> None | c # s' \<Rightarrow> if p c then run ts k (s', g) else None)"
| "run (Star p # ts) k (s, g) = star p (\<lambda>s'. run ts k (s', g)) s"
| "run (Plus p # ts) k (s, g) =
     (case s of [] \<Rightarrow> None
      | c # s' \<Rightarrow> if p c then star p (\<lambda>s''. run ts k (s'', g)) s' else None)"
| "run (Grp n body # ts) k (s, g) =
     run body (\<lambda>(s', g'). run ts k (s', g' @ [(n, take (length s - length s') s)])) (s, g)"
| "run (Alts as # ts) k st = alts as (run ts k) st"
| "alts [] k st = None"
| "alts (a # as) k st = (case run a k st of Some r \<Rightarrow> Some r | None \<Rightarrow> alts as k st)"

text \<open>\<^verbatim>\<open>re.fullmatch\<close>: the groups of the match that ends at the end of the text.\<close>

definition re_fullmatch :: "rx list \<Rightarrow> string \<Rightarrow> groups option" where
  "re_fullmatch r s = run r (\<lambda>(s', g). if s' = [] then Some g else None) (s, [])"

text \<open>\<^verbatim>\<open>re.match\<close>: a match at the start; the result is the groups and the rest.\<close>

definition re_match :: "rx list \<Rightarrow> string \<Rightarrow> (groups \<times> string) option" where
  "re_match r s = run r (\<lambda>(s', g). Some (g, s')) (s, [])"

text \<open>
  \<^verbatim>\<open>re.findall\<close> for a pattern that matches no empty text: the matches from left to
  right, each search resuming where the last match ended. The groups of one match are
  returned as captured; a group that took no part is absent.
\<close>

fun re_findall :: "rx list \<Rightarrow> string \<Rightarrow> groups list" where
  "re_findall r [] = []"
| "re_findall r (c # s) =
     (case re_match r (c # s) of
        None \<Rightarrow> re_findall r s
      | Some (g, rest) \<Rightarrow>
          if length rest < length (c # s) then g # re_findall r rest
          else g # re_findall r s)"

text \<open>\<^verbatim>\<open>m.group(name)\<close>, with the empty text for a group that took no part.\<close>

definition group :: "groups \<Rightarrow> string \<Rightarrow> string" where
  "group g n = (case map_of g n of None \<Rightarrow> [] | Some v \<Rightarrow> v)"

section \<open>InstalledMod\<close>

record InstalledMod =
  modid :: string
  version :: string
  modname :: string
  filename :: string
  errored :: bool
  disabled :: bool

text \<open>
  The line grammar of \<^verbatim>\<open>InstalledMod.parse\<close>:
  \<^verbatim>\<open>(?P<status>[ULCHIJADE]+)\s+(?P<modid>[^{ \t][^{]*)\{(?P<version>[^}]+)} \[(?P<modname>.+)] \((?P<filename>.+)\)\<close>
\<close>

definition mod_line_rx :: "rx list" where
  "mod_line_rx =
     [Grp ''status'' [Plus (one_of ''ULCHIJADE'')],
      Plus is_space,
      Grp ''modid'' [Cls (none_of [CHR ''{'', CHR '' '', CHR 0x09]), Star (none_of ''{'')],
      Lit ''{'',
      Grp ''version'' [Plus (none_of ''}'')],
      Lit ''} ['',
      Grp ''modname'' [Plus dot],
      Lit ''] ('',
      Grp ''filename'' [Plus dot],
      Lit '')'']"

definition coremod_filename_convention_modid :: "groups \<Rightarrow> string" where
  "coremod_filename_convention_modid m = group m ''modid'' @ ''-'' @ group m ''version'' @ ''.jar''"

definition coremods :: "string \<Rightarrow> (groups \<Rightarrow> string) option" where
  "coremods =
     map_of [(''CodeChickenCore'', coremod_filename_convention_modid),
             (''PlayerAPI'', coremod_filename_convention_modid)]"

text \<open>
  \<^verbatim>\<open>InstalledMod.parse\<close>: \<open>Inl ValueError\<close> for a line outside the grammar,
  \<open>Inr None\<close> for a line that gives no record, \<open>Inr (Some m)\<close> for a record.
\<close>

definition mk_mod :: "groups \<Rightarrow> string \<Rightarrow> InstalledMod" where
  "mk_mod m fname =
     \<lparr>modid = group m ''modid'', version = group m ''version'',
      modname = group m ''modname'', filename = fname,
      errored = (CHR ''E'' \<in> set (group m ''status'')),
      disabled = (CHR ''D'' \<in> set (group m ''status''))\<rparr>"

definition parse :: "string \<Rightarrow> py_error + InstalledMod option" where
  "parse line =
     (case re_fullmatch mod_line_rx line of
        None \<Rightarrow> Inl ValueError
      | Some m \<Rightarrow>
          if group m ''modid'' = ''FML'' then Inr None
          else if group m ''modid'' = ''Forge'' then Inr None
          else if group m ''filename'' = ''minecraft.jar'' then
            (case coremods (group m ''modid'') of
               None \<Rightarrow> Inr None
             | Some func \<Rightarrow> Inr (Some (mk_mod m (func m))))
          else Inr (Some (mk_mod m (group m ''filename''))))"

section \<open>CrashReport\<close>

datatype Side = CLIENT | SERVER | BOTH | CLIENT_JAVA9 | SERVER_JAVA9

text \<open>
  A report that was built from a text, as every report of \<open>Helper\<close> is: its
  \<^verbatim>\<open>content\<close> is that text. The reports built from a fetch function are modelled
  in the next section.
\<close>

record CrashReport =
  url :: string
  content :: string

fun main_stack_trace_loop :: "string list \<Rightarrow> string list \<Rightarrow> string list" where
  "main_stack_trace_loop ret [] = ret"
| "main_stack_trace_loop ret (line # ls) =
     (if strip line = [] then ret else main_stack_trace_loop (ret @ [strip line]) ls)"

definition main_stack_trace :: "CrashReport \<Rightarrow> string list" where
  "main_stack_trace cr = main_stack_trace_loop [] (drop 6 (splitlines (content cr)))"

fun mod_list_loop :: "bool \<Rightarrow> InstalledMod list \<Rightarrow> string list \<Rightarrow> InstalledMod list" where
  "mod_list_loop in_list ret [] = ret"
| "mod_list_loop in_list ret (line # ls) =
     (if contains ''States'' line then mod_list_loop True ret ls
      else if in_list then
        (case parse (strip line) of
           Inl e \<Rightarrow> ret
         | Inr None \<Rightarrow> mod_list_loop in_list ret ls
         | Inr (Some parsed) \<Rightarrow> mod_list_loop in_list (ret @ [parsed]) ls)
      else mod_list_loop in_list ret ls)"

definition mod_list :: "CrashReport \<Rightarrow> InstalledMod list" where
  "mod_list cr = mod_list_loop False [] (splitlines (content cr))"

definition truncated :: "CrashReport \<Rightarrow> bool" where
  "truncated cr = (if contains ''Is Modded'' (content cr) then False else True)"

text \<open>The pattern \<^verbatim>\<open>Java Version: (\S+),\<close>.\<close>

definition java_version_rx :: "rx list" where
  "java_version_rx = [Lit ''Java Version: '', Grp ''1'' [Plus non_space], Lit '','']"

definition java_version :: "CrashReport \<Rightarrow> string option" where
  "java_version cr =
     (case re_findall java_version_rx (content cr) of
        [] \<Rightarrow> None
      | v # vs \<Rightarrow> Some (strip (group v ''1'')))"

definition is_java8 :: "CrashReport \<Rightarrow> bool" where
  "is_java8 cr = (case java_version cr of None \<Rightarrow> False | Some v \<Rightarrow> prefix ''1.8.0'' v)"

definition is_recent_java :: "CrashReport \<Rightarrow> bool" where
  "is_recent_java cr =
     (case java_version cr of None \<Rightarrow> False | Some v \<Rightarrow> if prefix ''1.'' v then False else True)"

definition side :: "CrashReport \<Rightarrow> Side" where
  "side cr =
     (if contains ''map_client.txt'' (content cr) then
        (if is_recent_java cr then CLIENT_JAVA9 else CLIENT)
      else if contains ''map_server.txt'' (content cr) then
        (if is_recent_java cr then SERVER_JAVA9 else SERVER)
      else BOTH)"

section \<open>The content accessor of a report built from a fetch function\<close>

text \<open>
  \<^verbatim>\<open>CrashReport.__init__\<close> keeps a callable as \<^verbatim>\<open>_content_func\<close> and a text as
  \<^verbatim>\<open>_content\<close>. A fetch function is called with the url; what it returns may differ
  from call to call, so it also gets the number of calls made before. The accessor
  returns the value read (or the error raised), the object, and the number of calls
  made so far.
\<close>

type_synonym fetch_fun = "string \<Rightarrow> nat \<Rightarrow> py_error + string"

datatype content_arg = Text string | Callable fetch_fun

record report_obj =
  obj_url :: string
  content_func :: "fetch_fun option"
  content_attr :: "string option"

definition new_report :: "string \<Rightarrow> content_arg \<Rightarrow> report_obj" where
  "new_report u c =
     (case c of
        Callable f \<Rightarrow> \<lparr>obj_url = u, content_func = Some f, content_attr = None\<rparr>
      | Text t \<Rightarrow> \<lparr>obj_url = u, content_func = None, content_attr = Some t\<rparr>)"

definition content_property :: "report_obj \<Rightarrow> nat \<Rightarrow> (py_error + string) \<times> report_obj \<times> nat" where
  "content_property ob calls =
     (case content_func ob of
        Some f \<Rightarrow>
          (case f (obj_url ob) calls of
             Inl e \<Rightarrow> (Inl e, ob, Suc calls)
           | Inr t \<Rightarrow> (Inr t, ob\<lparr>content_attr := Some t\<rparr>, Suc calls))
      | None \<Rightarrow>
          (case content_attr ob of
             Some t \<Rightarrow> (Inr t, ob, calls)
           | None \<Rightarrow> (Inl AttributeError, ob, calls)))"

text \<open>Reading the content twice, one read after the other.\<close>

definition read_twice :: "report_obj \<Rightarrow> nat \<Rightarrow> (py_error + string) \<times> (py_error + string) \<times> nat" where
  "read_twice ob calls =
     (case content_property ob calls of
        (r1, ob1, calls1) \<Rightarrow>
          (case content_property ob1 calls1 of
             (r2, ob2, calls2) \<Rightarrow> (r1, r2, calls2)))"

section \<open>urlparse\<close>

text \<open>
  \<^verbatim>\<open>urllib.parse.urlparse\<close> of the standard library, as far as the program reads its
  result: \<^verbatim>\<open>scheme\<close>, \<^verbatim>\<open>hostname\<close>, \<^verbatim>\<open>path\<close> and \<^verbatim>\<open>query\<close>. Leading control
  characters and spaces are dropped, tabs and line ends are removed, the scheme ends at
  the first colon, the network location runs from \<^verbatim>\<open>//\<close> to the first of \<^verbatim>\<open>/?#\<close>,
  a bracket without its partner raises \<^verbatim>\<open>ValueError\<close>, a network location with
  brackets must hold an IPv6 or IPvFuture address between them (CPython 3.11.4 and
  later), then the fragment, the query and the parameters of the last path segment are
  split off.
\<close>

record parse_result =
  scheme :: string
  netloc :: string
  path :: string
  params :: string
  query :: string
  fragment :: string

definition nonempty :: "string \<Rightarrow> bool" where
  "nonempty s = (case s of [] \<Rightarrow> False | c # cs \<Rightarrow> True)"

definition scheme_chars :: string where
  "scheme_chars = ''abcdefghijklmnopqrstuvwxyzABCDEFGHIJKLMNOPQRSTUVWXYZ0123456789+-.''"

definition ascii_alpha :: string where
  "ascii_alpha = ''abcdefghijklmnopqrstuvwxyzABCDEFGHIJKLMNOPQRSTUVWXYZ''"

definition uses_params :: "string list" where
  "uses_params = [[], ''ftp'', ''hdl'', ''prospero'', ''http'', ''imap'', ''https'', ''shttp'',
     ''rtsp'', ''rtsps'', ''rtspu'', ''sip'', ''sips'', ''mms'', ''sftp'', ''tel'']"

text \<open>The text before the first \<open>c\<close> and the text after it; all of it when there is none.\<close>

definition before :: "char \<Rightarrow> string \<Rightarrow> string" where
  "before c s = takeWhile (\<lambda>x. if x = c then False else True) s"

definition after :: "char \<Rightarrow> string \<Rightarrow> string" where
  "after c s = drop 1 (dropWhile (\<lambda>x. if x = c then False else True) s)"

text \<open>The scheme and the rest of the url.\<close>

definition split_scheme :: "string \<Rightarrow> string \<times> string" where
  "split_scheme u =
     (let cand = before CHR '':'' u
      in if CHR '':'' \<in> set u \<and> (case cand of [] \<Rightarrow> False | c # cs \<Rightarrow> c \<in> set ascii_alpha)
            \<and> list_all (\<lambda>c. c \<in> set scheme_chars) cand
         then (lower cand, after CHR '':'' u)
         else ([], u))"

text \<open>\<^verbatim>\<open>_splitparams\<close>: the parameters follow the first semicolon of the last segment.\<close>

definition splitparams :: "string \<Rightarrow> string \<times> string" where
  "splitparams u =
     (if CHR ''/'' \<in> set u then
        (let i = py_find u '';'' (int (length u) - 1 - int (length (before CHR ''/'' (rev u))))
         in if i < 0 then (u, []) else (take (nat i) u, drop (nat i + 1) u))
      else (before CHR '';'' u, after CHR '';'' u))"

text \<open>\<^verbatim>\<open>s.split(c)\<close> for a separator of one character: the parts, empty ones included.\<close>

fun split_on_acc :: "char \<Rightarrow> string \<Rightarrow> string \<Rightarrow> string list" where
  "split_on_acc c cur [] = [cur]"
| "split_on_acc c cur (x # xs) =
     (if x = c then cur # split_on_acc c [] xs else split_on_acc c (cur @ [x]) xs)"

definition split_on :: "char \<Rightarrow> string \<Rightarrow> string list" where
  "split_on c s = split_on_acc c [] s"

text \<open>
  \<^verbatim>\<open>ipaddress\<close>, as far as \<^verbatim>\<open>_check_bracketed_host\<close> needs it: whether a text is an IPv4
  address, and whether it is an IPv6 address. An octet is one to three ASCII digits with
  no leading zero and a value up to 255; a hextet is one to four hexadecimal digits.
\<close>

definition decimal :: "string \<Rightarrow> nat" where
  "decimal s = foldl (\<lambda>n c. 10 * n + (of_char c - 48)) 0 s"

definition parse_octet_ok :: "string \<Rightarrow> bool" where
  "parse_octet_ok s =
     (case s of
        [] \<Rightarrow> False
      | c # cs \<Rightarrow>
          list_all is_digit s \<and> length s \<le> 3
          \<and> (if s = ''0'' then True else if c = CHR ''0'' then False else True)
          \<and> decimal s \<le> 255)"

definition ipv4_ok :: "string \<Rightarrow> bool" where
  "ipv4_ok s =
     (if s = [] then False
      else if CHR ''/'' \<in> set s then False
      else length (split_on CHR ''.'' s) = 4 \<and> list_all parse_octet_ok (split_on CHR ''.'' s))"

definition hex_digits :: string where
  "hex_digits = ''0123456789ABCDEFabcdef''"

definition parse_hextet_ok :: "string \<Rightarrow> bool" where
  "parse_hextet_ok s =
     (case s of [] \<Rightarrow> False | c # cs \<Rightarrow> list_all (\<lambda>x. x \<in> set hex_digits) s \<and> length s \<le> 4)"

text \<open>
  The parts between the colons of an IPv6 address, an IPv4 suffix already replaced by
  two hextets: at most nine parts; at most one empty part strictly inside, which stands
  for \<^verbatim>\<open>::\<close>; without it eight hextets; with it an empty first or last part must
  belong to the \<^verbatim>\<open>::\<close>, at most seven hextets remain, and they are the parts before
  and after it.
\<close>

definition ipv6_parts_ok :: "string list \<Rightarrow> bool" where
  "ipv6_parts_ok ps =
     (let n = length ps;
          skips = filter (\<lambda>i. ps ! i = []) [1 ..< n - 1]
      in if 9 < n then False
         else (case skips of
                 [] \<Rightarrow> n = 8 \<and> list_all parse_hextet_ok ps
               | i # more_skips \<Rightarrow>
                   if more_skips = [] then
                     (let hi = (if hd ps = [] then i - 1 else i);
                          lo = (if last ps = [] then n - i - 1 - 1 else n - i - 1)
                      in if hd ps = [] \<and> 0 < hi then False
                         else if last ps = [] \<and> 0 < lo then False
                         else if 8 \<le> hi + lo then False
                         else list_all parse_hextet_ok (take hi ps)
                              \<and> list_all parse_hextet_ok (drop (n - lo) ps))
                   else False))"

text \<open>
  \<^verbatim>\<open>IPv6Address\<close> of a text without scope: at least three parts; a last part with a dot
  must be an IPv4 address, which is replaced by its two hextets (any two hextets serve
  here, since only the form is checked).
\<close>

definition ipv6_ok :: "string \<Rightarrow> bool" where
  "ipv6_ok s =
     (let parts = split_on CHR '':'' s
      in if s = [] then False
         else if length parts < 3 then False
         else if CHR ''.'' \<in> set (last parts) then
           ipv4_ok (last parts) \<and> ipv6_parts_ok (butlast parts @ [''0'', ''0''])
         else ipv6_parts_ok parts)"

text \<open>With a scope after \<^verbatim>\<open>%\<close>, which must be non-empty and hold no other \<^verbatim>\<open>%\<close>.\<close>

definition ipv6_scoped_ok :: "string \<Rightarrow> bool" where
  "ipv6_scoped_ok s =
     (if CHR ''%'' \<in> set s then
        (if after CHR ''%'' s = [] then False
         else if CHR ''%'' \<in> set (after CHR ''%'' s) then False
         else ipv6_ok (before CHR ''%'' s))
      else ipv6_ok s)"

text \<open>
  \<^verbatim>\<open>_check_bracketed_host\<close>: a host that starts with \<^verbatim>\<open>v\<close> must match
  \<^verbatim>\<open>\Av[a-fA-F0-9]+\..+\Z\<close>; any other must be an IPv6 address (an IPv4 address is
  refused, and is no IPv6 address either).
\<close>

definition ipvfuture_rx :: "rx list" where
  "ipvfuture_rx = [Lit ''v'', Plus (one_of ''abcdefABCDEF0123456789''), Lit ''.'', Plus dot]"

definition bracketed_host_ok :: "string \<Rightarrow> bool" where
  "bracketed_host_ok h =
     (if prefix ''v'' h then (case re_fullmatch ipvfuture_rx h of None \<Rightarrow> False | Some m \<Rightarrow> True)
      else ipv6_scoped_ok h)"

text \<open>
  \<^verbatim>\<open>_check_bracketed_netloc\<close>, for a network location that holds both brackets: after
  the last \<^verbatim>\<open>@\<close>, nothing may stand before the opening bracket and only a port may
  follow the closing one; the host is the text between them, or the text up to the
  first colon when no bracket follows the \<^verbatim>\<open>@\<close>.
\<close>

definition bracketed_netloc_ok :: "string \<Rightarrow> bool" where
  "bracketed_netloc_ok nl =
     (let hostinfo = rev (before CHR ''@'' (rev nl))
      in if CHR ''['' \<in> set hostinfo then
           (if nonempty (before CHR ''['' hostinfo) then False
            else if nonempty (after CHR '']'' (after CHR ''['' hostinfo))
                    \<and> (if prefix '':'' (after CHR '']'' (after CHR ''['' hostinfo)) then False else True)
            then False
            else bracketed_host_ok (before CHR '']'' (after CHR ''['' hostinfo)))
         else bracketed_host_ok (before CHR '':'' hostinfo))"

definition urlparse :: "string \<Rightarrow> py_error + parse_result" where
  "urlparse u0 =
     (let u1 = dropWhile (\<lambda>c. (of_char c :: nat) \<le> 32) u0;
          u2 = filter (\<lambda>c. if c \<in> set [CHR 0x09, CHR 0x0D, CHR 0x0A] then False else True) u1;
          su = split_scheme u2;
          sch = fst su;
          u3 = snd su;
          has_netloc = prefix ''//'' u3;
          nl = (if has_netloc then takeWhile (none_of ''/?#'') (drop 2 u3) else []);
          u4 = (if has_netloc then dropWhile (none_of ''/?#'') (drop 2 u3) else u3);
          frag = after CHR ''#'' u4;
          u5 = before CHR ''#'' u4;
          q = after CHR ''?'' u5;
          u6 = before CHR ''?'' u5;
          with_params = (sch \<in> set uses_params \<and> CHR '';'' \<in> set u6);
          parsed = \<lparr>scheme = sch, netloc = nl,
                path = (if with_params then fst (splitparams u6) else u6),
                params = (if with_params then snd (splitparams u6) else []),
                query = q, fragment = frag\<rparr>
      in if (CHR ''['' \<in> set nl) = (CHR '']'' \<in> set nl) then
           (if CHR ''['' \<in> set nl then
              (if bracketed_netloc_ok nl then Inr parsed else Inl ValueError)
            else Inr parsed)
         else Inl ValueError)"

text \<open>
  \<^verbatim>\<open>hostname\<close>: the network location after the last \<^verbatim>\<open>@\<close>; between brackets when
  there is one, up to the first colon otherwise; absent when empty; in lower case up to
  a \<^verbatim>\<open>%\<close>.
\<close>

definition hostname :: "parse_result \<Rightarrow> string option" where
  "hostname p =
     (let hostinfo = rev (before CHR ''@'' (rev (netloc p)));
          h = (if CHR ''['' \<in> set hostinfo then before CHR '']'' (after CHR ''['' hostinfo)
               else before CHR '':'' hostinfo)
      in if h = [] then None
         else Some (lower (before CHR ''%'' h) @ dropWhile (\<lambda>x. if x = CHR ''%'' then False else True) h))"

section \<open>Helper: locating the reports\<close>

text \<open>
  What \<open>Helper\<close> does besides returning values: the lines of \<^verbatim>\<open>self._out\<close>, the
  annotations sent through \<^verbatim>\<open>gha_utils\<close> and \<^verbatim>\<open>logging\<close>, and the urls requested with
  \<^verbatim>\<open>requests.get\<close>, each in the order it happened.
\<close>

datatype gha_event = Debug string | Notice string | Warning string | LogError string

record helper_state =
  out :: "string list"
  gha :: "gha_event list"
  fetched :: "string list"

text \<open>
  \<^verbatim>\<open>requests.get\<close>: given the urls requested before and the url, it raises or answers
  with a status code and a text.
\<close>

type_synonym http = "string list \<Rightarrow> string \<Rightarrow> py_error + nat \<times> string"

definition marker :: string where
  "marker = ''---- Minecraft Crash Report ----''"

text \<open>The patterns of \<^verbatim>\<open>_search_section\<close>, in the order of the source.\<close>

definition url_rx :: "rx list" where
  "url_rx =
     [Alts [[Grp ''1'' [Lit ''https://'', Plus non_space]],
            [Lit ''['', Plus (none_of '']''), Lit '']('',
             Grp ''2'' [Lit ''https://'', Plus non_space], Lit '')'']]]"

definition github_files_rx :: "rx list" where
  "github_files_rx =
     [Lit ''/'', Plus (none_of ''/''), Lit ''/GT-New-Horizons-Modpack/files/'', Plus dot]"

definition paste_ee_rx :: "rx list" where
  "paste_ee_rx = [Lit ''/p/'', Plus (none_of ''/''), Lit ''/'', Plus dot]"

definition log_rx :: "rx list" where
  "log_rx =
     [Lit ''['', Cls is_digit, Cls is_digit, Lit '':'', Cls is_digit, Cls is_digit, Lit '':'',
      Cls is_digit, Cls is_digit, Lit ''] ['', Plus (none_of ''/''), Lit ''/'',
      Grp ''1'' [Alts [[Lit ''INFO''], [Lit ''DEBUG''], [Lit ''TRACE''], [Lit ''WARN''],
                       [Lit ''ERROR'']]],
      Lit ''] ['', Plus dot, Lit ''/'', Plus dot, Lit '']:'']"

text \<open>\<^verbatim>\<open>x[0] or x[1]\<close> for one result of \<^verbatim>\<open>findall\<close>.\<close>

definition url_of :: "groups \<Rightarrow> string" where
  "url_of x = (if nonempty (group x ''1'') then group x ''1'' else group x ''2'')"

text \<open>
  Lines 293 to 325, the resolver: what is decided for one url before anything is
  fetched. Either a download url, or the url is skipped with the annotations and the
  output lines of its branch.
\<close>

datatype verdict = Download string | Skip "gha_event list" "string list"

definition paste_ubuntu_refusal :: string where
  "paste_ubuntu_refusal = ''Please refrain from posting crash reports to paste.ubuntu.com. They might require login to be viewed and our automated analysis tool (like this) cannot read their content.''"

definition suspicious :: "string \<Rightarrow> string \<Rightarrow> verdict" where
  "suspicious host u =
     Skip [Warning (''Suspicious '' @ host @ '' link: '' @ u @ ''. Not processing this file'')] []"

definition resolve_parsed :: "string \<Rightarrow> parse_result \<Rightarrow> verdict" where
  "resolve_parsed u parsed =
     (if hostname parsed = Some ''pastebin.com'' then
        (if nonempty (query parsed) then suspicious ''pastebin.com'' u
         else if path parsed = [] then suspicious ''pastebin.com'' u
         else if CHR ''/'' \<in> set (drop 1 (path parsed)) then suspicious ''pastebin.com'' u
         else Download (scheme parsed @ ''://'' @ ''pastebin.com'' @ ''/raw'' @ path parsed))
      else if hostname parsed = Some ''github.com''
              \<and> (case re_fullmatch github_files_rx (path parsed) of None \<Rightarrow> False | Some m \<Rightarrow> True) then
        (if nonempty (query parsed) then suspicious ''github.com'' u
         else Download u)
      else if hostname parsed = Some ''gist.github.com'' then
        Skip [Warning (''Gist API not implemented for '' @ u @ ''. Not processing this file'')] []
      else if hostname parsed = Some ''paste.ee'' then
        (if nonempty (query parsed) then suspicious ''paste.ee'' u
         else (case re_fullmatch paste_ee_rx (path parsed) of
                 None \<Rightarrow> suspicious ''paste.ee'' u
               | Some m \<Rightarrow> Download (scheme parsed @ ''://'' @ ''paste.ee'' @ ''/d'' @ drop 2 (path parsed))))
      else if hostname parsed = Some ''mclo.gs'' then
        (if nonempty (query parsed) then suspicious ''mclo.gs'' u
         else if path parsed = [] then suspicious ''mclo.gs'' u
         else if CHR ''/'' \<in> set (drop 1 (path parsed)) then suspicious ''mclo.gs'' u
         else Download (''https://api.mclo.gs/1/raw'' @ path parsed))
      else if hostname parsed = Some ''paste.ubuntu.com'' then
        Skip [] [paste_ubuntu_refusal]
      else Skip [Notice ''Unknown url. Probably ''] [])"

definition resolve :: "string \<Rightarrow> py_error + verdict" where
  "resolve u = (case urlparse u of Inl e \<Rightarrow> Inl e | Inr parsed \<Rightarrow> Inr (resolve_parsed u parsed))"

text \<open>
  Lines 326 to 338: the download of a resolved url and what becomes of its text. The
  result is the error raised or the list of reports, and the state, which is kept when
  an error is raised. The request is recorded whether it answers or raises.
\<close>

definition download :: "http \<Rightarrow> string \<Rightarrow> string \<Rightarrow> CrashReport list \<Rightarrow> helper_state
    \<Rightarrow> (py_error + CrashReport list) \<times> helper_state" where
  "download get u download_url ret st =
     (let st1 = st\<lparr>fetched := fetched st @ [download_url]\<rparr>;
          failure = ''Failed to download url: '' @ download_url @ ''. Original file link: '' @ u
      in case get (fetched st) download_url of
           Inl e \<Rightarrow> (Inl e, st1)
         | Inr (status_code, text) \<Rightarrow>
             if status_code = 200 then
               (if prefix marker text then
                  (Inr (ret @ [\<lparr>url = download_url, content = text\<rparr>]), st1)
                else (case re_match log_rx text of
                        Some m \<Rightarrow> (Inr ret, st1\<lparr>gha := gha st1 @
                          [Notice (''Found potential log in '' @ u @ ''. Parsing not implemented for now.'')]\<rparr>)
                      | None \<Rightarrow> (Inr ret, st1)))
             else (Inr ret, st1\<lparr>gha := gha st1 @ [Warning failure], out := out st1 @ [failure]\<rparr>))"

definition process_url :: "http \<Rightarrow> string \<Rightarrow> CrashReport list \<Rightarrow> helper_state
    \<Rightarrow> (py_error + CrashReport list) \<times> helper_state" where
  "process_url get u ret st =
     (case resolve u of
        Inl e \<Rightarrow> (Inl e, st)
      | Inr (Skip evs lines) \<Rightarrow> (Inr ret, st\<lparr>gha := gha st @ evs, out := out st @ lines\<rparr>)
      | Inr (Download download_url) \<Rightarrow> download get u download_url ret st)"

text \<open>The loop over the urls found in one section, with its set \<^verbatim>\<open>all_urls\<close>.\<close>

fun link_loop :: "http \<Rightarrow> string set \<Rightarrow> string list \<Rightarrow> CrashReport list \<Rightarrow> helper_state
    \<Rightarrow> (py_error + CrashReport list) \<times> helper_state" where
  "link_loop get all_urls [] ret st = (Inr ret, st)"
| "link_loop get all_urls (u # us) ret st =
     (if u \<in> all_urls then
        link_loop get all_urls us ret (st\<lparr>gha := gha st @ [Debug (''Duplicate url: '' @ u)]\<rparr>)
      else
        (case process_url get u ret st of
           (Inl e, st') \<Rightarrow> (Inl e, st')
         | (Inr ret', st') \<Rightarrow> link_loop get (insert u all_urls) us ret' st'))"

text \<open>
  Lines 278 to 285, the inline scan. The report appended in one round of the loop, and
  the loop; a loop that does not end has no result, which is \<open>None\<close>.
\<close>

definition inline_report :: "string \<Rightarrow> int \<Rightarrow> nat \<Rightarrow> CrashReport" where
  "inline_report cr_data istart n =
     (let moddedline = py_find cr_data ''Is Modded'' istart;
          iend = py_find cr_data [CHR 0x0A] moddedline;
          iend' = (if iend = - 1 then int (length cr_data) else iend)
      in \<lparr>url = ''inline '' @ str_nat (n + 1), content = py_slice cr_data istart iend'\<rparr>)"

partial_function (option) inline_loop :: "string \<Rightarrow> int \<Rightarrow> CrashReport list \<Rightarrow> CrashReport list option" where
  "inline_loop cr_data istart ret =
     (if istart = - 1 then Some ret
      else inline_loop cr_data (py_find cr_data marker istart)
             (ret @ [inline_report cr_data istart (length ret)]))"

definition inline_scan :: "string \<Rightarrow> CrashReport list option" where
  "inline_scan cr_data =
     (if contains marker cr_data \<and> contains ''Is Modded'' cr_data then
        inline_loop cr_data (py_find cr_data marker 0) []
      else Some [])"

text \<open>
  \<^verbatim>\<open>_search_section\<close>. The form data maps a section name to its text; a missing name
  raises \<^verbatim>\<open>KeyError\<close>. The result is \<open>None\<close> when the call does not return.
\<close>

definition search_section :: "(string \<rightharpoonup> string) \<Rightarrow> http \<Rightarrow> string \<Rightarrow> helper_state
    \<Rightarrow> ((py_error + CrashReport list) \<times> helper_state) option" where
  "search_section form get section_key st =
     (case form section_key of
        None \<Rightarrow> Some (Inl KeyError, st)
      | Some cr_data \<Rightarrow>
          (case inline_scan cr_data of
             None \<Rightarrow> None
           | Some ret \<Rightarrow>
               Some (link_loop get {} (map url_of (re_findall url_rx cr_data)) ret st)))"



declare inline_loop.simps [code]

section \<open>Helper: the analysis of one report\<close>

text \<open>
  An entry of the official mod list is a pair of the mod's information and its version;
  the program reads the version's \<^verbatim>\<open>filename\<close> only. \<^verbatim>\<open>get_official_mods\<close> belongs to
  the manifest subsystem: it is a parameter, a function of the pack version and the
  side that raises or returns the list.
\<close>

record GTNHVersion =
  version_filename :: string

type_synonym official_mod = "string \<times> GTNHVersion"

type_synonym official_mods = "string \<Rightarrow> Side \<Rightarrow> py_error + official_mod list"

text \<open>The argument of line 343: the first word of the form field, stripped, in lower case.\<close>

definition pack_version :: "(string \<rightharpoonup> string) \<Rightarrow> py_error + string" where
  "pack_version form =
     (case form ''Your Pack Version'' of
        None \<Rightarrow> Inl KeyError
      | Some field \<Rightarrow>
          (case split_ws field of
             [] \<Rightarrow> Inl IndexError
           | w # ws \<Rightarrow> Inr (lower (strip w))))"

definition get_mod_list :: "(string \<rightharpoonup> string) \<Rightarrow> official_mods \<Rightarrow> Side \<Rightarrow> helper_state
    \<Rightarrow> official_mod list \<times> helper_state" where
  "get_mod_list form get_official_mods sd st =
     (case pack_version form of
        Inl e \<Rightarrow> ([], st\<lparr>gha := gha st @ [LogError ''error fetching cr mod list'']\<rparr>)
      | Inr v \<Rightarrow>
          (case get_official_mods v sd of
             Inl e \<Rightarrow> ([], st\<lparr>gha := gha st @ [LogError ''error fetching cr mod list'']\<rparr>)
           | Inr mods \<Rightarrow> (mods, st)))"

definition get_mod_filename_set :: "(string \<rightharpoonup> string) \<Rightarrow> official_mods \<Rightarrow> Side \<Rightarrow> helper_state
    \<Rightarrow> string list \<times> helper_state" where
  "get_mod_filename_set form get_official_mods sd st =
     (case get_mod_list form get_official_mods sd st of
        (mods, st') \<Rightarrow> (remdups (map (\<lambda>(info, v). version_filename v) mods), st'))"

definition say :: "string \<Rightarrow> helper_state \<Rightarrow> helper_state" where
  "say line st = st\<lparr>out := out st @ [line]\<rparr>"

text \<open>
  Lines 352 to 363: the headline and the early checks. The flag tells that
  \<^verbatim>\<open>analyze\<close> has returned.
\<close>

definition early_checks :: "CrashReport \<Rightarrow> helper_state \<Rightarrow> bool \<times> helper_state" where
  "early_checks cr st =
     (let st1 = say (''# Primitive Automated Analysis of Crash Report '' @ url cr) st;
          st2 = (if truncated cr then
                   say ''CRASH REPORT IS TRUNCATED. This will not help to get your problem fixed!!!'' st1
                 else st1)
      in if take 2 (main_stack_trace cr) =
              [''java.lang.NullPointerException'',
               ''at cpw.mods.fml.common.network.internal.FMLProxyPacket.func_148833_a(FMLProxyPacket.java:101)'']
         then (True, say ''This crash report is near useless. Try post fml-client-latest.log instead.'' st2)
         else if list_ex (contains ''ChunkIOProvider'') (main_stack_trace cr)
         then (True, say ''This crash report suggests world corruption. Try restore from a backup.'' st2)
         else (False, st2))"

text \<open>Lines 366 to 369. \<^verbatim>\<open>main_stack_trace[0]\<close> raises on an empty list.\<close>

definition diagnostics :: "CrashReport \<Rightarrow> helper_state \<Rightarrow> (py_error + unit) \<times> helper_state" where
  "diagnostics cr st =
     (case main_stack_trace cr of
        [] \<Rightarrow> (Inl IndexError, st)
      | line0 # lines \<Rightarrow>
          (let st1 = (if line0 =''java.lang.RuntimeException: Chunk build failed'' then
                        say ''Possibly an Angelica problem. Try remove this mod and see if this fixes your problem.'' st
                      else st)
           in (Inr (), say (''<details><summary>Stacktrace</summary>''
                              @ join [CHR 0x0A] (main_stack_trace cr) @ ''</details>'') st1)))"

text \<open>
  Lines 380 to 389, the loop over the missing file names. The order in which Python
  walks a set is not specified; the model walks the names in the order of the list.
\<close>

fun missing_loop :: "CrashReport \<Rightarrow> string list \<Rightarrow> string list" where
  "missing_loop cr [] = []"
| "missing_loop cr (f # fs) =
     (if contains ''healer'' (lower f) \<or> contains ''codechickenlib'' (lower f) then
        missing_loop cr fs
      else if \<not> is_recent_java cr \<and> contains ''lwjgl3ify'' (lower f) then
        missing_loop cr fs
      else (''* '' @ f) # missing_loop cr fs)"

definition missing_block :: "CrashReport \<Rightarrow> string list \<Rightarrow> string list" where
  "missing_block cr missing =
     (if missing = [] then []
      else [''<details><summary>Missing mods</summary>''] @ missing_loop cr missing @ [''</details>''])"

definition added_block :: "(string \<rightharpoonup> InstalledMod) \<Rightarrow> string list \<Rightarrow> string list" where
  "added_block cr_mods added =
     (if added = [] then []
      else [''<details><summary>Added mods</summary>'']
           @ map (\<lambda>f. ''* '' @ f @ '' ('' @ (case cr_mods f of None \<Rightarrow> [] | Some m \<Rightarrow> modname m) @ '')'') added
           @ [''</details>''])"

text \<open>Lines 373 to 395: the two differences and their blocks.\<close>

definition mod_diff :: "(string \<rightharpoonup> string) \<Rightarrow> official_mods \<Rightarrow> CrashReport \<Rightarrow> helper_state
    \<Rightarrow> (py_error + unit) \<times> helper_state" where
  "mod_diff form get_official_mods cr st =
     (let cr_mods = map_of (rev (map (\<lambda>m. (filename m, m)) (mod_list cr)));
          cr_mods_set = remdups (map filename (mod_list cr))
      in case get_mod_filename_set form get_official_mods (side cr) st of
           (base_mods_set, st1) \<Rightarrow>
             (let missing = filter (\<lambda>f. if f \<in> set cr_mods_set then False else True) base_mods_set;
                  added = filter (\<lambda>f. if f \<in> set base_mods_set then False else True) cr_mods_set
              in (Inr (), st1\<lparr>out := out st1 @ missing_block cr missing @ added_block cr_mods added\<rparr>)))"

definition analyze :: "(string \<rightharpoonup> string) \<Rightarrow> official_mods \<Rightarrow> CrashReport \<Rightarrow> helper_state
    \<Rightarrow> (py_error + unit) \<times> helper_state" where
  "analyze form get_official_mods cr st =
     (case early_checks cr st of
        (True, st1) \<Rightarrow> (Inr (), st1)
      | (False, st1) \<Rightarrow>
          (case diagnostics cr st1 of
             (Inl e, st2) \<Rightarrow> (Inl e, st2)
           | (Inr u, st2) \<Rightarrow>
               (case get_mod_list form get_official_mods (side cr) st2 of
                  (mods, st3) \<Rightarrow>
                    if mods = [] then (Inr (), st3)
                    else mod_diff form get_official_mods cr st3)))"

section \<open>The mod table scan as a specification\<close>

text \<open>
  The scan of the mod table in the words of the specification, to be compared with
  \<open>mod_list\<close>. A line of the table is trimmed and tried on the grammar; the table ends
  before the first line that fails it; a line that gives no record is skipped.
\<close>

definition grammar_ok :: "string \<Rightarrow> bool" where
  "grammar_ok line = (case parse (strip line) of Inl e \<Rightarrow> False | Inr r \<Rightarrow> True)"

definition record_of :: "string \<Rightarrow> InstalledMod option" where
  "record_of line = (case parse (strip line) of Inl e \<Rightarrow> None | Inr r \<Rightarrow> r)"

definition table_records :: "string list \<Rightarrow> InstalledMod list" where
  "table_records ls = List.map_filter record_of (takeWhile grammar_ok ls)"

definition no_header :: "string \<Rightarrow> bool" where
  "no_header line = (if contains ''States'' line then False else True)"

text \<open>The table is made of all the lines after the first line that contains \<^verbatim>\<open>States\<close>.\<close>

definition mod_list_spec :: "CrashReport \<Rightarrow> InstalledMod list" where
  "mod_list_spec cr = table_records (drop 1 (dropWhile no_header (splitlines (content cr))))"


section \<open>Continuations that keep the groups\<close>

text \<open>A continuation that returns the groups it was given, with more groups after them.\<close>

definition extends :: "(string \<times> groups \<Rightarrow> groups option) \<Rightarrow> bool" where
  "extends k = (\<forall>s g r. k (s, g) = Some r \<longrightarrow> prefix g r)"

section \<open>The urls of one section\<close>

text \<open>The verdict of the branch of line 306, for \<^verbatim>\<open>gist.github.com\<close>.\<close>

definition gist_warning :: "string \<Rightarrow> verdict" where
  "gist_warning u =
     Skip [Warning (''Gist API not implemented for '' @ u @ ''. Not processing this file'')] []"










section \<open>Example inputs\<close>


definition two_spellings_form :: "string \<rightharpoonup> string" where
  "two_spellings_form =
     map_of [(''Crash Report'', ''https://pastebin.com/abc123 https://PASTEBIN.com/abc123'')]"


definition paste_web :: http where
  "paste_web requested u = Inr (200, ''---- Minecraft Crash Report ----'')"

text \<open>A manifest subsystem that fails, and a report with a stack trace and no side marker.\<close>

definition no_manifest :: official_mods where
  "no_manifest v sd = Inl (OtherError ''404'')"

definition chunk_report :: CrashReport where
  "chunk_report = \<lparr>url = ''inline 1'',
     content = ''---- Minecraft Crash Report ----'' @ [CHR 0x0A] @ ''// Oops.'' @ [CHR 0x0A] @ [CHR 0x0A]
       @ ''Time: 1/1/24 10:00 AM'' @ [CHR 0x0A] @ ''Description: Rendering'' @ [CHR 0x0A] @ [CHR 0x0A]
       @ ''java.lang.RuntimeException: Chunk build failed'' @ [CHR 0x0A] @ [CHR 0x0A]
       @ ''Java Version: 17.0.1, Oracle'' @ [CHR 0x0A] @ ''Is Modded: yes''\<rparr>"

text \<open>A report of Java 17 with no side marker, and an official list with two entries.\<close>

definition java17_no_side_report :: CrashReport where
  "java17_no_side_report = \<lparr>url = ''inline 1'',
     content = ''---- Minecraft Crash Report ----'' @ [CHR 0x0A] @ ''// Oops.'' @ [CHR 0x0A] @ [CHR 0x0A]
       @ ''Time: 1/1/24 10:00 AM'' @ [CHR 0x0A] @ ''Description: Rendering'' @ [CHR 0x0A] @ [CHR 0x0A]
       @ ''java.lang.IllegalStateException: oops'' @ [CHR 0x0A] @ [CHR 0x0A]
       @ ''Java Version: 17.0.1, Oracle'' @ [CHR 0x0A] @ ''Is Modded: yes''\<rparr>"

definition lwjgl_manifest :: official_mods where
  "lwjgl_manifest v sd = Inr [(''lwjgl3ify'', \<lparr>version_filename = ''lwjgl3ify-1.0.jar''\<rparr>),
      (''CodeChickenLib'', \<lparr>version_filename = ''CodeChickenLib-1.1.5.jar''\<rparr>)]"

definition pack_form :: "string \<rightharpoonup> string" where
  "pack_form = map_of [(''Your Pack Version'', ''2.6.0'')]"


definition both_markers_report :: CrashReport where
  "both_markers_report =
     \<lparr>url = ''inline 1'', content = ''map_server.txt map_client.txt Java Version: 17.0.1, Oracle''\<rparr>"

definition nei_line :: string where
  "nei_line = ''UCHIJAE NotEnoughItems{2.3.0} [Not Enough Items] (NEI-2.3.0.jar)''"

definition nei_groups :: groups where
  "nei_groups = [(''status'', ''UCHIJAE''), (''modid'', ''NotEnoughItems''), (''version'', ''2.3.0''),
     (''modname'', ''Not Enough Items''), (''filename'', ''NEI-2.3.0.jar'')]"

text \<open>A report cut off after its header: the seventh line is blank.\<close>

definition short_report :: CrashReport where
  "short_report = \<lparr>url = ''inline 1'',
     content = ''---- Minecraft Crash Report ----'' @ [CHR 0x0A] @ ''// Oops.'' @ [CHR 0x0A] @ [CHR 0x0A]
       @ ''Time: 1/1/24 10:00 AM'' @ [CHR 0x0A] @ ''Description: Ticking entity'' @ [CHR 0x0A]
       @ [CHR 0x0A] @ [CHR 0x0A]
       @ ''java.lang.NullPointerException: Ticking entity'' @ [CHR 0x0A] @ ''Is Modded: yes''\<rparr>"

text \<open>A section that holds one inline report.\<close>

definition inline_section :: string where
  "inline_section =
     ''---- Minecraft Crash Report ----'' @ [CHR 0x0A] @ ''Is Modded: Definitely'' @ [CHR 0x0A]"


definition empty_state :: helper_state where
  "empty_state = \<lparr>out = [], gha = [], fetched = []\<rparr>"

section \<open>Side detection\<close>

text \<open>
  C10. When the content has both the \<^verbatim>\<open>map_client.txt\<close> and the \<^verbatim>\<open>map_server.txt\<close>
  marker, the side is the client one: \<open>CLIENT_JAVA9\<close> for a recent Java, \<open>CLIENT\<close>
  otherwise. The client marker is looked for first.
\<close>

theorem side_client_precedence:
  "contains ''map_client.txt'' (content cr) \<Longrightarrow> contains ''map_server.txt'' (content cr)
   \<Longrightarrow> side cr = (if is_recent_java cr then CLIENT_JAVA9 else CLIENT)"
  by (simp add: side_def)

theorem side_client_precedence_witness:
  "contains ''map_client.txt'' (content both_markers_report)
   \<and> contains ''map_server.txt'' (content both_markers_report)
   \<and> is_recent_java both_markers_report
   \<and> side both_markers_report = CLIENT_JAVA9"
proof -
  have c: "contains ''map_client.txt'' (content both_markers_report)" by code_simp
  have s: "contains ''map_server.txt'' (content both_markers_report)" by code_simp
  have j: "is_recent_java both_markers_report" by code_simp
  show ?thesis using side_client_precedence [OF c s] c s j by simp
qed

section \<open>Parsing one line of the mod table\<close>

text \<open>
  A repetition hands over to its continuation after some of the characters it may take;
  the groups captured so far stay in front of the result; so the status group of a
  matching line is the leading run of status letters, which the white space ends.
\<close>

lemma star_result:
  "star p k s = Some r \<Longrightarrow> \<exists>j\<le>length (takeWhile p s). k (drop j s) = Some r"
proof (induction s)
  case Nil
  then show ?case by simp
next
  case (Cons c s)
  show ?case
  proof (cases "p c")
    case False
    with Cons.prems show ?thesis by auto
  next
    case True
    show ?thesis
    proof (cases "star p k s")
      case None
      with True Cons.prems have "k (drop 0 (c # s)) = Some r" by simp
      then show ?thesis by blast
    next
      case (Some r')
      with True Cons.prems have "star p k s = Some r" by simp
      from Cons.IH [OF this] obtain j where "j \<le> length (takeWhile p s)" "k (drop j s) = Some r" by blast
      then have "Suc j \<le> length (takeWhile p (c # s)) \<and> k (drop (Suc j) (c # s)) = Some r"
        using True by simp
      then show ?thesis by blast
    qed
  qed
qed

lemma run_extends:
  "extends k \<longrightarrow> (\<forall>r. run ts k st = Some r \<longrightarrow> prefix (snd st) r)"
  and "extends k \<longrightarrow> (\<forall>r. alts as k st = Some r \<longrightarrow> prefix (snd st) r)"
proof (induction ts k st and as k st rule: run_alts.induct)
  case (1 k st)
  then show ?case by (cases st) (auto simp: extends_def)
next
  case (2 l ts k s g)
  then show ?case by (auto split: if_splits)
next
  case (3 p ts k s g)
  then show ?case by (auto split: list.splits if_splits)
next
  case (4 p ts k s g)
  show ?case
  proof (intro impI allI)
    fix r assume e: "extends k" and m: "run (Star p # ts) k (s, g) = Some r"
    then have "star p (\<lambda>s'. run ts k (s', g)) s = Some r" by simp
    from star_result [OF this] obtain j where "run ts k (drop j s, g) = Some r" by blast
    with 4 e show "prefix (snd (s, g)) r" by auto
  qed
next
  case (5 p ts k s g)
  show ?case
  proof (intro impI allI)
    fix r assume e: "extends k" and m: "run (Plus p # ts) k (s, g) = Some r"
    then obtain c s' where s: "s = c # s'" "p c" "star p (\<lambda>s''. run ts k (s'', g)) s' = Some r"
      by (auto split: list.splits if_splits)
    from star_result [OF s(3)] obtain j where "run ts k (drop j s', g) = Some r" by blast
    with 5 [OF s(1) s(2)] e show "prefix (snd (s, g)) r" by auto
  qed
next
  case (6 n body ts k s g)
  show ?case
  proof (intro impI allI)
    fix r assume e: "extends k" and m: "run (Grp n body # ts) k (s, g) = Some r"
    let ?K = "\<lambda>(s', g'). run ts k (s', g' @ [(n, take (length s - length s') s)])"
    have "extends ?K"
      unfolding extends_def
    proof (intro allI impI)
      fix s' g' r' assume "?K (s', g') = Some r'"
      then have "run ts k (s', g' @ [(n, take (length s - length s') s)]) = Some r'" by simp
      with 6(1) e have "prefix (g' @ [(n, take (length s - length s') s)]) r'" by auto
      then show "prefix g' r'" using append_prefixD by blast
    qed
    with 6(2) m show "prefix (snd (s, g)) r" by auto
  qed
next
  case (7 as ts k st)
  show ?case
  proof (intro impI allI)
    fix r assume e: "extends k" and m: "run (Alts as # ts) k st = Some r"
    have "extends (run ts k)" unfolding extends_def using 7(1) e by auto
    with 7(2) m show "prefix (snd st) r" by auto
  qed
next
  case (8 k st)
  then show ?case by simp
next
  case (9 a as k st)
  then show ?case by (auto split: option.splits)
qed

lemma status_group:
  assumes "re_fullmatch mod_line_rx line = Some m"
  shows "group m ''status'' = takeWhile (one_of ''ULCHIJADE'') line"
proof -
  let ?p = "one_of ''ULCHIJADE''"
  let ?fin = "\<lambda>(s' :: string, g :: groups). if s' = [] then Some g else None"
  define R' where "R' = drop 2 mod_line_rx"
  define R where "R = Plus is_space # R'"
  have eq: "mod_line_rx = Grp ''status'' [Plus ?p] # R"
    by (simp add: mod_line_rx_def R_def R'_def)
  have ext: "extends ?fin" by (auto simp: extends_def split: if_splits)
  from assms have "run (Grp ''status'' [Plus ?p] # R) ?fin (line, []) = Some m"
    by (simp add: re_fullmatch_def eq)
  then obtain c s' where l: "line = c # s'" "?p c"
    and st: "star ?p (\<lambda>s''. run R ?fin (s'', [(''status'', take (length line - length s'') line)])) s' = Some m"
    by (cases line) (simp_all split: if_splits)
  from star_result [OF st] obtain j where j: "j \<le> length (takeWhile ?p s')"
    and r: "run R ?fin (drop j s', [(''status'', take (length line - length (drop j s')) line)]) = Some m"
    by blast
  from r obtain d t where d: "drop j s' = d # t" "is_space d"
    unfolding R_def by (cases "drop j s'") (simp_all split: if_splits)
  have nsp: "\<not> ?p d" using d(2) by (auto simp: one_of_def is_space_def)
  have jl: "j < length s'" using d(1) by (cases "j < length s'") auto
  have dj: "s' ! j = d" using Cons_nth_drop_Suc [OF jl] d(1) by simp
  have jm: "j = length (takeWhile ?p s')"
  proof (rule ccontr)
    assume "j \<noteq> length (takeWhile ?p s')"
    with j have lt: "j < length (takeWhile ?p s')" by simp
    then have "takeWhile ?p s' ! j \<in> set (takeWhile ?p s')" by simp
    then have "?p (takeWhile ?p s' ! j)" by (rule set_takeWhileD [THEN conjunct2])
    moreover have "takeWhile ?p s' ! j = s' ! j" using lt by (rule takeWhile_nth)
    ultimately show False using nsp dj by simp
  qed
  have n: "length line - length (drop j s') = Suc j" using jl l by simp
  have "take j s' = takeWhile ?p s'" unfolding jm by (rule takeWhile_eq_take [symmetric])
  then have tk: "take (length line - length (drop j s')) line = takeWhile ?p line"
    unfolding n using l by simp
  from run_extends(1) [of ?fin R
      "(drop j s', [(''status'', take (length line - length (drop j s')) line)])"] ext r
  have "prefix [(''status'', takeWhile ?p line)] m" using tk by auto
  then obtain more where "m = (''status'', takeWhile ?p line) # more" by (auto simp: prefix_def)
  then show ?thesis by (simp add: group_def)
qed

text \<open>
  C6. A line that matches the grammar, with a modid other than \<^verbatim>\<open>FML\<close> and \<^verbatim>\<open>Forge\<close>
  and a filename other than \<^verbatim>\<open>minecraft.jar\<close>, parses to exactly one record. Its fields
  are the groups of the match, \<open>errored\<close> holds iff \<^verbatim>\<open>E\<close> occurs in the status group and
  \<open>disabled\<close> iff \<^verbatim>\<open>D\<close> does; the status group is the leading run of status letters
  of the line. \<open>parse\<close> is a function of the line alone.
\<close>

theorem parse_ordinary_line:
  assumes "re_fullmatch mod_line_rx line = Some m"
    and "group m ''modid'' \<noteq> ''FML''" and "group m ''modid'' \<noteq> ''Forge''"
    and "group m ''filename'' \<noteq> ''minecraft.jar''"
  shows "parse line = Inr (Some \<lparr>modid = group m ''modid'', version = group m ''version'',
           modname = group m ''modname'', filename = group m ''filename'',
           errored = (CHR ''E'' \<in> set (group m ''status'')),
           disabled = (CHR ''D'' \<in> set (group m ''status''))\<rparr>)
         \<and> group m ''status'' = takeWhile (one_of ''ULCHIJADE'') line"
  using assms status_group [OF assms(1)] by (simp add: parse_def mk_mod_def)

theorem parse_ordinary_line_witness:
  "re_fullmatch mod_line_rx nei_line = Some nei_groups
   \<and> parse nei_line = Inr (Some \<lparr>modid = ''NotEnoughItems'', version = ''2.3.0'',
        modname = ''Not Enough Items'', filename = ''NEI-2.3.0.jar'',
        errored = True, disabled = False\<rparr>)"
proof -
  have m: "re_fullmatch mod_line_rx nei_line = Some nei_groups" by code_simp
  have a: "group nei_groups ''modid'' \<noteq> ''FML''" by code_simp
  have b: "group nei_groups ''modid'' \<noteq> ''Forge''" by code_simp
  have c: "group nei_groups ''filename'' \<noteq> ''minecraft.jar''" by code_simp
  have g: "group nei_groups ''modid'' = ''NotEnoughItems''" "group nei_groups ''version'' = ''2.3.0''"
    "group nei_groups ''modname'' = ''Not Enough Items''"
    "group nei_groups ''filename'' = ''NEI-2.3.0.jar''"
    "group nei_groups ''status'' = ''UCHIJAE''"
    by code_simp+
  show ?thesis using parse_ordinary_line [OF m a b c] m by (simp add: g)
qed

section \<open>The content accessor\<close>

text \<open>
  Every read of the content of a report built from a fetch function calls that
  function: \<^verbatim>\<open>_content_func\<close> is never removed, so the text kept in \<^verbatim>\<open>_content\<close> is
  overwritten by each read.
\<close>

lemma lazy_read_calls:
  "content_func ob = Some f \<Longrightarrow>
   snd (snd (content_property ob n)) = Suc n
   \<and> content_func (fst (snd (content_property ob n))) = Some f
   \<and> fst (content_property ob n) = f (obj_url ob) n"
  by (simp add: content_property_def split: sum.splits)

text \<open>
  C4. The claim is that the fetch function runs at most once and that later reads
  return the cached text. Here a report is built from a fetch function that answers
  with the number of calls made before; two reads call it twice, and the second read
  returns the second answer, not the first.
\<close>

theorem content_fetched_on_every_read:
  "read_twice (new_report ''u'' (Callable (\<lambda>u n. Inr (str_nat n)))) 0 = (Inr ''0'', Inr ''1'', 2)"
  by code_simp

section \<open>An empty stack trace\<close>

lemma empty_trace_raises:
  "main_stack_trace cr = [] \<Longrightarrow> fst (analyze form get_official_mods cr st) = Inl IndexError"
  by (simp add: analyze_def early_checks_def diagnostics_def Let_def)

text \<open>
  C3. The claim is that \<open>analyze\<close> does not raise on a report with an empty stack
  trace. On such a report neither early check returns, and line 366 reads
  \<^verbatim>\<open>main_stack_trace[0]\<close>: \<open>analyze\<close> raises \<^verbatim>\<open>IndexError\<close> after the headline.
\<close>

theorem analyze_empty_trace_raises:
  "main_stack_trace short_report = []
   \<and> analyze form get_official_mods short_report empty_state
       = (Inl IndexError,
          \<lparr>out = [''# Primitive Automated Analysis of Crash Report inline 1''], gha = [], fetched = []\<rparr>)"
proof -
  have t: "main_stack_trace short_report = []" by code_simp
  have tr: "truncated short_report = False" by code_simp
  have u: "url short_report = ''inline 1''" by code_simp
  show ?thesis using t tr u
    by (simp add: analyze_def early_checks_def diagnostics_def Let_def say_def empty_state_def)
qed

section \<open>The inline scan\<close>

text \<open>
  The first index found by \<^verbatim>\<open>find\<close> is found again by a search that starts there, so
  the loop of lines 279 to 285 never leaves its first position.
\<close>


lemma index_of_prefix:
  "index_of sub s = Some i \<Longrightarrow> prefix sub (drop i s) \<and> i \<le> length s"
proof (induction s arbitrary: i)
  case Nil
  then show ?case by (simp split: if_splits)
next
  case (Cons c s)
  show ?case
  proof (cases "prefix sub (c # s)")
    case True
    with Cons.prems show ?thesis by simp
  next
    case False
    with Cons.prems obtain j where j: "index_of sub s = Some j" "i = Suc j" by auto
    from Cons.IH [OF j(1)] j(2) show ?thesis by simp
  qed
qed

lemma prefix_index_of: "prefix sub s \<Longrightarrow> index_of sub s = Some 0"
  by (cases s) auto

lemma py_find_fixed:
  assumes "py_find s sub 0 = k" and "k \<noteq> - 1"
  shows "0 \<le> k \<and> py_find s sub k = k"
proof -
  from assms obtain i where i: "index_of sub s = Some i" "k = int i"
    by (auto simp: py_find_def split: option.splits)
  from index_of_prefix [OF i(1)] have p: "prefix sub (drop i s)" and le: "i \<le> length s" by auto
  from prefix_index_of [OF p] le i(2) show ?thesis by (simp add: py_find_def)
qed

lemma inline_loop_stuck:
  assumes "0 \<le> i" and "py_find s marker i = i"
  shows "inline_loop s i ret = None"
proof (rule ccontr)
  assume "inline_loop s i ret \<noteq> None"
  then obtain y where y: "inline_loop s i ret = Some y" by auto
  have "\<not> (0 \<le> i \<and> py_find s marker i = i)"
    by (rule inline_loop.raw_induct [where P = "\<lambda>s i r y. \<not> (0 \<le> i \<and> py_find s marker i = i)", OF _ y])
       (auto split: if_splits)
  with assms show False by simp
qed

lemma contains_py_find: "contains sub s \<Longrightarrow> py_find s sub 0 \<noteq> - 1"
  by (auto simp: contains_def py_find_def split: option.splits)

lemma inline_scan_never_returns:
  assumes "contains marker s" and "contains ''Is Modded'' s"
  shows "inline_scan s = None"
proof -
  from contains_py_find [OF assms(1)] have "py_find s marker 0 \<noteq> - 1" .
  from py_find_fixed [OF refl this] have "inline_loop s (py_find s marker 0) [] = None"
    by (intro inline_loop_stuck) auto
  with assms show ?thesis by (simp add: inline_scan_def)
qed


text \<open>
  C1. The claim is that the inline scan terminates with one report for each marker. The
  scan is entered only when the section holds both the marker and \<^verbatim>\<open>Is Modded\<close>;
  line 285 then searches the marker again from \<open>istart\<close> itself, finds it at
  \<open>istart\<close>, and the loop appends the same report for ever. On a section with one
  inline report neither the scan nor \<^verbatim>\<open>_search_section\<close> returns.
\<close>

theorem inline_scan_does_not_terminate:
  "inline_scan inline_section = None
   \<and> search_section (map_of [(''Crash Report'', inline_section)]) get ''Crash Report'' st = None"
proof -
  have m: "contains marker inline_section" by code_simp
  have i: "contains ''Is Modded'' inline_section" by code_simp
  have s: "inline_scan inline_section = None" by (rule inline_scan_never_returns [OF m i])
  then show ?thesis by (simp add: search_section_def)
qed

section \<open>The official mod list\<close>

text \<open>
  C9. \<open>get_mod_list\<close> returns the empty list, and raises nothing, when the pack version
  field is missing, when it holds no word, and when the manifest subsystem raises; it
  adds no output line. When the list it returns is empty, \<open>analyze\<close> returns without
  error right after the stack trace block: the output is the one of the early checks
  and the diagnostics, and no difference is computed.
\<close>

theorem mod_list_failure_is_empty:
  "(form ''Your Pack Version'' = None \<longrightarrow> fst (get_mod_list form get_official_mods sd st) = [])
   \<and> (form ''Your Pack Version'' = Some field \<and> split_ws field = []
        \<longrightarrow> fst (get_mod_list form get_official_mods sd st) = [])
   \<and> (pack_version form = Inr v \<and> get_official_mods v sd = Inl e
        \<longrightarrow> fst (get_mod_list form get_official_mods sd st) = [])
   \<and> out (snd (get_mod_list form get_official_mods sd st)) = out st
   \<and> (early_checks cr st = (False, st1) \<and> diagnostics cr st1 = (Inr (), st2)
        \<and> fst (get_mod_list form get_official_mods (side cr) st2) = []
        \<longrightarrow> fst (analyze form get_official_mods cr st) = Inr ()
            \<and> out (snd (analyze form get_official_mods cr st)) = out st2)"
  by (auto simp: get_mod_list_def pack_version_def analyze_def
      split: sum.splits list.splits option.splits prod.splits)

theorem mod_list_failure_is_empty_witness:
  "Map.empty ''Your Pack Version'' = (None :: string option)
   \<and> fst (get_mod_list Map.empty no_manifest BOTH empty_state) = []
   \<and> pack_version (map_of [(''Your Pack Version'', ''2.6.0 beta'')]) = Inr ''2.6.0''
   \<and> no_manifest ''2.6.0'' BOTH = Inl (OtherError ''404'')
   \<and> fst (get_mod_list (map_of [(''Your Pack Version'', ''2.6.0 beta'')]) no_manifest BOTH empty_state) = []
   \<and> side chunk_report = BOTH
   \<and> fst (analyze Map.empty no_manifest chunk_report empty_state) = Inr ()
   \<and> out (snd (analyze Map.empty no_manifest chunk_report empty_state)) =
       [''# Primitive Automated Analysis of Crash Report inline 1'',
        ''Possibly an Angelica problem. Try remove this mod and see if this fixes your problem.'',
        ''<details><summary>Stacktrace</summary>java.lang.RuntimeException: Chunk build failed</details>'']"
proof -
  let ?st2 = "\<lparr>out = [''# Primitive Automated Analysis of Crash Report inline 1'',
        ''Possibly an Angelica problem. Try remove this mod and see if this fixes your problem.'',
        ''<details><summary>Stacktrace</summary>java.lang.RuntimeException: Chunk build failed</details>''],
        gha = [], fetched = []\<rparr>"
  let ?st1 = "\<lparr>out = [''# Primitive Automated Analysis of Crash Report inline 1''], gha = [], fetched = []\<rparr>"
  let ?form = "map_of [(''Your Pack Version'', ''2.6.0 beta'')]"
  have a: "Map.empty ''Your Pack Version'' = (None :: string option)" by simp
  have pv: "pack_version ?form = Inr ''2.6.0''" by code_simp
  have nm: "no_manifest ''2.6.0'' BOTH = Inl (OtherError ''404'')" by (simp add: no_manifest_def)
  have sd: "side chunk_report = BOTH" by code_simp
  have ec: "early_checks chunk_report empty_state = (False, ?st1)" by code_simp
  have dg: "diagnostics chunk_report ?st1 = (Inr (), ?st2)" by code_simp
  note T = mod_list_failure_is_empty [where form = Map.empty and get_official_mods = no_manifest
      and sd = BOTH and st = empty_state and cr = chunk_report and ?st1.0 = ?st1 and ?st2.0 = ?st2]
  note U = mod_list_failure_is_empty [where form = ?form and get_official_mods = no_manifest
      and sd = BOTH and st = empty_state and v = "''2.6.0''" and e = "OtherError ''404''"]
  have g1: "fst (get_mod_list Map.empty no_manifest BOTH empty_state) = []" using T a by blast
  have g2: "fst (get_mod_list ?form no_manifest BOTH empty_state) = []" using U pv nm by blast
  have g3: "fst (get_mod_list Map.empty no_manifest (side chunk_report) ?st2) = []"
    using mod_list_failure_is_empty [where form = Map.empty and get_official_mods = no_manifest
      and sd = "side chunk_report" and st = ?st2] a by blast
  have an: "fst (analyze Map.empty no_manifest chunk_report empty_state) = Inr ()
            \<and> out (snd (analyze Map.empty no_manifest chunk_report empty_state)) = out ?st2"
    using T ec dg g3 by blast
  show ?thesis using a g1 pv nm g2 sd an by simp
qed

section \<open>The missing mods\<close>

lemma missing_loop_lines:
  "line \<in> set (missing_loop cr missing) \<longleftrightarrow>
     (\<exists>f. line = ''* '' @ f \<and> f \<in> set missing
        \<and> \<not> contains ''healer'' (lower f) \<and> \<not> contains ''codechickenlib'' (lower f)
        \<and> (is_recent_java cr \<or> \<not> contains ''lwjgl3ify'' (lower f)))"
  by (induction missing) auto

lemma recent_java_sides:
  "is_recent_java cr \<Longrightarrow> side cr = CLIENT_JAVA9 \<or> side cr = SERVER_JAVA9 \<or> side cr = BOTH"
  by (simp add: side_def)

lemma java9_side_recent:
  "side cr = CLIENT_JAVA9 \<or> side cr = SERVER_JAVA9 \<Longrightarrow> is_recent_java cr"
  by (auto simp: side_def split: if_splits)

text \<open>
  C8, as the code has it. A line \<^verbatim>\<open>* f\<close> stands in the block of the missing mods
  exactly when \<open>f\<close> is a missing name that contains neither \<^verbatim>\<open>healer\<close> nor
  \<^verbatim>\<open>codechickenlib\<close> in lower case and, if it contains \<^verbatim>\<open>lwjgl3ify\<close>, the Java of the
  report is recent. So a name with \<^verbatim>\<open>lwjgl3ify\<close> is listed only for a recent Java; the
  side is then a Java 9 variant or, for a content with no side marker, \<open>BOTH\<close>. On the
  Java 9 sides the Java is recent.
\<close>

theorem missing_block_filter:
  "(''* '' @ f \<in> set (missing_block cr missing) \<longleftrightarrow>
      f \<in> set missing \<and> \<not> contains ''healer'' (lower f) \<and> \<not> contains ''codechickenlib'' (lower f)
      \<and> (is_recent_java cr \<or> \<not> contains ''lwjgl3ify'' (lower f)))
   \<and> (''* '' @ f \<in> set (missing_block cr missing) \<and> contains ''lwjgl3ify'' (lower f)
        \<longrightarrow> is_recent_java cr \<and> (side cr = CLIENT_JAVA9 \<or> side cr = SERVER_JAVA9 \<or> side cr = BOTH))
   \<and> (side cr = CLIENT_JAVA9 \<or> side cr = SERVER_JAVA9 \<longrightarrow> is_recent_java cr)"
proof -
  have a: "''* '' @ f \<in> set (missing_block cr missing) \<longleftrightarrow> ''* '' @ f \<in> set (missing_loop cr missing)"
    by (auto simp: missing_block_def)
  have b: "''* '' @ f \<in> set (missing_loop cr missing) \<longleftrightarrow>
      f \<in> set missing \<and> \<not> contains ''healer'' (lower f) \<and> \<not> contains ''codechickenlib'' (lower f)
      \<and> (is_recent_java cr \<or> \<not> contains ''lwjgl3ify'' (lower f))"
    by (subst missing_loop_lines) auto
  show ?thesis using a b recent_java_sides [of cr] java9_side_recent [of cr] by blast
qed

theorem missing_block_filter_witness:
  "''* lwjgl3ify-1.0.jar'' \<in> set (missing_block java17_no_side_report [''lwjgl3ify-1.0.jar'', ''CodeChickenLib-1.1.5.jar''])
   \<and> ''* CodeChickenLib-1.1.5.jar'' \<notin> set (missing_block java17_no_side_report [''lwjgl3ify-1.0.jar'', ''CodeChickenLib-1.1.5.jar''])
   \<and> contains ''lwjgl3ify'' (lower ''lwjgl3ify-1.0.jar'')
   \<and> contains ''codechickenlib'' (lower ''CodeChickenLib-1.1.5.jar'')
   \<and> is_recent_java java17_no_side_report
   \<and> side java17_no_side_report = BOTH"
proof -
  let ?m = "[''lwjgl3ify-1.0.jar'', ''CodeChickenLib-1.1.5.jar'']"
  have r: "is_recent_java java17_no_side_report" by code_simp
  have s: "side java17_no_side_report = BOTH" by code_simp
  have l: "contains ''lwjgl3ify'' (lower ''lwjgl3ify-1.0.jar'')" by code_simp
  have c: "contains ''codechickenlib'' (lower ''CodeChickenLib-1.1.5.jar'')" by code_simp
  have h: "\<not> contains ''healer'' (lower ''lwjgl3ify-1.0.jar'')" by code_simp
  have k: "\<not> contains ''codechickenlib'' (lower ''lwjgl3ify-1.0.jar'')" by code_simp
  have 1: "''* '' @ ''lwjgl3ify-1.0.jar'' \<in> set (missing_block java17_no_side_report ?m)"
    using missing_block_filter [of "''lwjgl3ify-1.0.jar''" java17_no_side_report ?m] r h k by simp
  have 2: "''* '' @ ''CodeChickenLib-1.1.5.jar'' \<notin> set (missing_block java17_no_side_report ?m)"
    using missing_block_filter [of "''CodeChickenLib-1.1.5.jar''" java17_no_side_report ?m] c by simp
  show ?thesis using 1 2 r s l c by simp
qed

text \<open>
  C8, as the claim has it, fails: the report below runs Java 17 and has no side marker,
  so its side is \<open>BOTH\<close>, not a Java 9 variant, and \<^verbatim>\<open>lwjgl3ify-1.0.jar\<close> is listed as
  missing. \<^verbatim>\<open>CodeChickenLib-1.1.5.jar\<close> is missing as well and is not listed.
\<close>

theorem lwjgl3ify_listed_on_undetermined_side:
  "side java17_no_side_report = BOTH
   \<and> analyze pack_form lwjgl_manifest java17_no_side_report empty_state =
       (Inr (),
        \<lparr>out = [''# Primitive Automated Analysis of Crash Report inline 1'',
                 ''<details><summary>Stacktrace</summary>java.lang.IllegalStateException: oops</details>'',
                 ''<details><summary>Missing mods</summary>'',
                 ''* lwjgl3ify-1.0.jar'',
                 ''</details>''],
           gha = [], fetched = []\<rparr>)"
  by code_simp

section \<open>The scan of the mod table\<close>

lemma table_records_Cons:
  "table_records (l # ls) =
     (case parse (strip l) of Inl e \<Rightarrow> [] | Inr None \<Rightarrow> table_records ls | Inr (Some m) \<Rightarrow> m # table_records ls)"
  by (simp add: table_records_def grammar_ok_def record_of_def List.map_filter_simps split: sum.splits option.splits)

lemma no_header_iff: "no_header l \<longleftrightarrow> \<not> contains ''States'' l"
  by (simp add: no_header_def)

lemma mod_list_loop_in_table:
  "mod_list_loop True ret ls = ret @ table_records (filter no_header ls)"
proof (induction ls arbitrary: ret)
  case Nil
  then show ?case by (simp add: table_records_def List.map_filter_simps)
next
  case (Cons l ls)
  show ?case
  proof (cases "no_header l")
    case False
    then have "contains ''States'' l" by (simp add: no_header_iff)
    then show ?thesis using Cons.IH False by simp
  next
    case True
    then have "\<not> contains ''States'' l" by (simp add: no_header_iff)
    then show ?thesis using Cons.IH True
      by (simp add: table_records_Cons split: sum.splits option.splits)
  qed
qed

lemma mod_list_loop_before_table:
  "mod_list_loop False ret ls = ret @ table_records (filter no_header (dropWhile no_header ls))"
proof (induction ls)
  case Nil
  then show ?case by (simp add: table_records_def List.map_filter_simps)
next
  case (Cons l ls)
  show ?case
  proof (cases "no_header l")
    case False
    then have "contains ''States'' l" by (simp add: no_header_iff)
    then show ?thesis using False by (simp add: mod_list_loop_in_table)
  next
    case True
    then have "\<not> contains ''States'' l" by (simp add: no_header_iff)
    then show ?thesis using Cons.IH True by simp
  qed
qed


text \<open>When no later line contains \<^verbatim>\<open>States\<close> the scan is the one of the specification.\<close>

lemma mod_list_spec_agrees:
  "list_all no_header (drop 1 (dropWhile no_header (splitlines (content cr))))
   \<Longrightarrow> mod_list cr = mod_list_spec cr"
proof -
  assume a: "list_all no_header (drop 1 (dropWhile no_header (splitlines (content cr))))"
  let ?ls = "dropWhile no_header (splitlines (content cr))"
  have "filter no_header ?ls = drop 1 ?ls"
  proof (cases ?ls)
    case Nil then show ?thesis unfolding Nil by simp
  next
    case (Cons h t)
    then have "\<not> no_header h" by (metis dropWhile_eq_Cons_conv)
    moreover from a Cons have "filter no_header t = t" by (simp add: list_all_iff)
    ultimately show ?thesis using Cons by simp
  qed
  then show ?thesis by (simp add: mod_list_def mod_list_loop_before_table mod_list_spec_def)
qed


section \<open>The resolver\<close>

lemma gist_host_rejected:
  "urlparse u = Inr p \<Longrightarrow> hostname p = Some ''gist.github.com'' \<Longrightarrow> resolve u = Inr (gist_warning u)"
  by (simp add: resolve_def resolve_parsed_def gist_warning_def)

lemma gist_url_parsed:
  "\<exists>p. urlparse (''https://gist.github.com/'' @ rest) = Inr p \<and> hostname p = Some ''gist.github.com''"
proof -
  have l: "lower ''gist.github.com'' = ''gist.github.com''" by code_simp
  have l2: "lower ''https'' = ''https''" by code_simp
  show ?thesis
    by (simp add: urlparse_def split_scheme_def before_def after_def Let_def none_of_def
        ascii_alpha_def scheme_chars_def hostname_def l l2)
qed

text \<open>A host between brackets must be an address: this url does not parse.\<close>

lemma bracketed_gist_host_raises:
  "urlparse ''https://[gist.github.com]/u/id'' = Inl ValueError
   \<and> resolve ''https://[gist.github.com]/u/id'' = Inl ValueError"
  by code_simp

text \<open>
  C7. The resolver maps \<^verbatim>\<open>https://pastebin.com/abc123\<close> to
  \<^verbatim>\<open>https://pastebin.com/raw/abc123\<close>; it skips \<^verbatim>\<open>https://pastebin.com/abc123?x=1\<close>,
  whose query is \<^verbatim>\<open>x=1\<close>, with a warning; it maps \<^verbatim>\<open>https://paste.ee/p/ID/1\<close> to
  \<^verbatim>\<open>https://paste.ee/d/ID/1\<close>; and it skips every url of \<^verbatim>\<open>gist.github.com\<close> with a
  warning and no error: every url that starts with \<^verbatim>\<open>https://gist.github.com/\<close>, and
  every url whose host name is \<^verbatim>\<open>gist.github.com\<close>.
\<close>

theorem url_resolver_cases:
  "resolve ''https://pastebin.com/abc123'' = Inr (Download ''https://pastebin.com/raw/abc123'')
   \<and> map_sum id query (urlparse ''https://pastebin.com/abc123?x=1'') = Inr ''x=1''
   \<and> resolve ''https://pastebin.com/abc123?x=1'' =
        Inr (Skip [Warning ''Suspicious pastebin.com link: https://pastebin.com/abc123?x=1. Not processing this file''] [])
   \<and> resolve ''https://paste.ee/p/ID/1'' = Inr (Download ''https://paste.ee/d/ID/1'')
   \<and> resolve (''https://gist.github.com/'' @ rest) = Inr (gist_warning (''https://gist.github.com/'' @ rest))
   \<and> (urlparse u = Inr p \<and> hostname p = Some ''gist.github.com'' \<longrightarrow> resolve u = Inr (gist_warning u))"
proof -
  have a: "resolve ''https://pastebin.com/abc123'' = Inr (Download ''https://pastebin.com/raw/abc123'')"
    by code_simp
  have b: "map_sum id query (urlparse ''https://pastebin.com/abc123?x=1'') = Inr ''x=1''"
    by code_simp
  have c: "resolve ''https://pastebin.com/abc123?x=1'' =
        Inr (Skip [Warning ''Suspicious pastebin.com link: https://pastebin.com/abc123?x=1. Not processing this file''] [])"
    by code_simp
  have d: "resolve ''https://paste.ee/p/ID/1'' = Inr (Download ''https://paste.ee/d/ID/1'')"
    by code_simp
  from gist_url_parsed [of rest] gist_host_rejected
  have e: "resolve (''https://gist.github.com/'' @ rest) = Inr (gist_warning (''https://gist.github.com/'' @ rest))"
    by blast
  show ?thesis using a b c d e gist_host_rejected by blast
qed

theorem url_resolver_cases_witness:
  "map_sum id hostname (urlparse ''https://user@GIST.github.com:443?tab=1'') = Inr (Some ''gist.github.com'')
   \<and> resolve ''https://user@GIST.github.com:443?tab=1'' =
        Inr (Skip [Warning ''Gist API not implemented for https://user@GIST.github.com:443?tab=1. Not processing this file''] [])
   \<and> resolve ''https://gist.github.com/u/id'' =
        Inr (Skip [Warning ''Gist API not implemented for https://gist.github.com/u/id. Not processing this file''] [])"
proof -
  let ?u = "''https://user@GIST.github.com:443?tab=1''"
  obtain p where p: "urlparse ?u = Inr p"
    by (cases "urlparse ?u") (simp_all, code_simp)
  have h: "map_sum id hostname (urlparse ?u) = Inr (Some ''gist.github.com'')" by code_simp
  with p have hp: "hostname p = Some ''gist.github.com''" by simp
  from url_resolver_cases [of "''u/id''" ?u p] p hp
  have "resolve ?u = Inr (gist_warning ?u)"
    and "resolve (''https://gist.github.com/'' @ ''u/id'') = Inr (gist_warning (''https://gist.github.com/'' @ ''u/id''))"
    by blast+
  then show ?thesis using h by (simp add: gist_warning_def)
qed

section \<open>The links of a submission\<close>














text \<open>Two spellings of one link in one section are two url texts: two requests as well.\<close>

lemma two_spellings_fetched_twice:
  "search_section two_spellings_form paste_web ''Crash Report'' empty_state =
     Some (Inr [\<lparr>url = ''https://pastebin.com/raw/abc123'', content = ''---- Minecraft Crash Report ----''\<rparr>,
                \<lparr>url = ''https://pastebin.com/raw/abc123'', content = ''---- Minecraft Crash Report ----''\<rparr>],
           \<lparr>out = [], gha = [],
             fetched = [''https://pastebin.com/raw/abc123'', ''https://pastebin.com/raw/abc123'']\<rparr>)"
  by code_simp

end
